theory Spec2Isabelle
  imports Main "HOL-Library.Word"
begin

section \<open>The constants of the platform\<close>

text \<open>
  \<^verbatim>\<open>resolve-ioctl-val.c\<close> prints three constants of \<^verbatim>\<open>linux/fs.h\<close>. The header
  belongs to the platform, not to the repository, so the three values are parameters
  of the model. Each is handed to the \<^verbatim>\<open>x\<close> conversion of \<^verbatim>\<open>printf\<close>, which
  fetches an \<^verbatim>\<open>unsigned int\<close>. A \<open>platform\<close> holds the three values as they are
  fetched, and \<open>'a\<close> is the width of \<^verbatim>\<open>unsigned int\<close> (32 on every Linux ABI). An
  ioctl request code and a bit of the 32-bit \<^verbatim>\<open>fsx_xflags\<close> word both fit it. The
  header may give a constant a wider type of its own; \<open>as_fetched\<close> below is the step
  from that type to what is fetched.
\<close>

record (overloaded) 'a platform =
  FS_IOC_FSGETXATTR :: "'a word"
  FS_IOC_FSSETXATTR :: "'a word"
  FS_XFLAG_PROJINHERIT :: "'a word"

section \<open>The process and its streams\<close>

text \<open>
  A stream is the list of the writes made on it, oldest first: the bytes of each
  write, and whether the device behind the stream took them.
\<close>

type_synonym stream = "(string \<times> bool) list"

text \<open>The bytes the program has written to a stream, and those that arrived.\<close>

definition sent :: "stream \<Rightarrow> string" where
  "sent s = concat (map fst s)"

definition arrived :: "stream \<Rightarrow> string" where
  "arrived s = concat (map fst (filter snd s))"

text \<open>
  What a run can see or change: command line, environment, files, the two output
  streams. \<open>stdout_accepts w k\<close> tells whether the device behind standard output takes
  write number \<open>k\<close> (counted from 0); it is the environment's choice. The result
  register is where a call leaves its \<^verbatim>\<open>int\<close> result.
\<close>

record world =
  argv :: "string list"
  environ :: "string list"
  files :: "string \<Rightarrow> string option"
  stdout :: stream
  stderr :: stream
  stdout_accepts :: "nat \<Rightarrow> bool"
  result_register :: int

section \<open>The library call\<close>

text \<open>
  The \<^verbatim>\<open>x\<close> conversion without flags, width or precision: the \<^verbatim>\<open>unsigned int\<close>
  argument in hexadecimal, letters \<^verbatim>\<open>abcdef\<close>, at least one digit, no padding.
\<close>

definition hex_digit :: "nat \<Rightarrow> char" where
  "hex_digit d = ''0123456789abcdef'' ! d"

fun hex :: "nat \<Rightarrow> string" where
  "hex n = (if n < 16 then [hex_digit n] else hex (n div 16) @ [hex_digit (n mod 16)])"

declare hex.simps [simp del]

text \<open>
  The format string is copied to the output; \<^verbatim>\<open>%x\<close> takes the next argument. The
  program uses no other directive, and each of its calls gives the one argument its
  format asks for; any other character is copied as it is.
\<close>

fun format :: "string \<Rightarrow> 'a::len word list \<Rightarrow> string" where
  "format [] args = []"
| "format [c] args = [c]"
| "format (c # d # fmt) args =
     (if c = CHR ''%'' \<and> d = CHR ''x'' \<and> args \<noteq> []
      then hex (unat (hd args)) @ format fmt (tl args)
      else c # format (d # fmt) args)"

text \<open>
  \<^verbatim>\<open>printf\<close> writes the formatted text to standard output and returns the number of
  characters, or a negative value (\<open>-1\<close> in the platform's C library) when the
  write failed. Standard output is taken as the C library has it on a terminal,
  buffered by line: each text of the program ends in a newline, so each call is one
  write on the stream. (On a file or a pipe the library collects the texts and writes
  them once at exit, and the calls return the lengths.)
\<close>

definition printf ::
  "string \<Rightarrow> 'a::len word list \<Rightarrow> 'b world_scheme \<Rightarrow> int \<times> 'b world_scheme" where
  "printf fmt args w =
     (let text = format fmt args;
          ok = stdout_accepts w (length (stdout w));
          w' = w\<lparr>stdout := stdout w @ [(text, ok)]\<rparr>
      in (if ok then int (length text) else - 1, w'))"

section \<open>The program\<close>

text \<open>
  An expression statement \<^verbatim>\<open>f(...);\<close>: the call is made for its effect, its value
  is used by nobody and stays in the result register.
\<close>

definition call :: "('s world_scheme \<Rightarrow> int \<times> 's world_scheme) \<Rightarrow> 's world_scheme \<Rightarrow> 's world_scheme" where
  "call f w = (let (r, w') = f w in w'\<lparr>result_register := r\<rparr>)"

text \<open>
  \<^verbatim>\<open>void main()\<close>: no parameters, three expression statements, no \<^verbatim>\<open>return\<close>.
\<close>

definition main :: "'a::len platform \<Rightarrow> 'b world_scheme \<Rightarrow> 'b world_scheme" where
  "main p w =
     (let w1 = call (printf ''FS_IOC_FSGETXATTR: 0x%x\<newline>'' [FS_IOC_FSGETXATTR p]) w;
          w2 = call (printf ''FS_IOC_FSSETXATTR: 0x%x\<newline>'' [FS_IOC_FSSETXATTR p]) w1;
          w3 = call (printf ''FS_XFLAG_PROJINHERIT: 0x%x\<newline>'' [FS_XFLAG_PROJINHERIT p]) w2
      in w3)"

text \<open>
  A run: the process starts with empty streams and calls \<open>main\<close>. The command line and
  the environment are there, but \<open>main\<close> declares no parameter to receive them. A
  signal that ends the process from outside is not part of \<open>run\<close>; \<open>exec\<close> below
  has it.
\<close>

definition process_start ::
  "string list \<Rightarrow> string list \<Rightarrow> (string \<Rightarrow> string option) \<Rightarrow> (nat \<Rightarrow> bool) \<Rightarrow> world" where
  "process_start args env fs dev =
     \<lparr>argv = args, environ = env, files = fs, stdout = [], stderr = [],
      stdout_accepts = dev, result_register = 0\<rparr>"

definition run ::
  "'a::len platform \<Rightarrow> string list \<Rightarrow> string list \<Rightarrow> (string \<Rightarrow> string option) \<Rightarrow> (nat \<Rightarrow> bool) \<Rightarrow> world" where
  "run p args env fs dev = main p (process_start args env fs dev)"

text \<open>
  When \<open>main\<close> returns, the start-up code passes the content of the result register to
  \<^verbatim>\<open>exit\<close>, and the host sees its low eight bits. \<open>main\<close> is \<^verbatim>\<open>void\<close> and stores
  nothing there itself.
\<close>

definition exit_status :: "'b world_scheme \<Rightarrow> int" where
  "exit_status w = result_register w mod 256"

text \<open>The platform of the specification's example.\<close>

definition scenario :: "32 platform" where
  "scenario = \<lparr>FS_IOC_FSGETXATTR = 0x5431, FS_IOC_FSSETXATTR = 0x5432,
                FS_XFLAG_PROJINHERIT = 0x00000200\<rparr>"

section \<open>The constants at their own width\<close>



section \<open>Execution, statement by statement\<close>






section \<open>Hexadecimal notation, as the specification words it\<close>

text \<open>
  The specification speaks of ``the lowercase-hexadecimal encoding with no padding''
  of a value. These definitions say what that is without reference to the printing
  code: which characters are allowed, what number a digit string denotes, and that a
  leading zero appears only in the string \<^verbatim>\<open>0\<close> itself.
\<close>

definition is_lower_hex :: "char \<Rightarrow> bool" where
  "is_lower_hex c = (c \<in> set ''0123456789abcdef'')"

definition digit_value :: "char \<Rightarrow> nat" where
  "digit_value c =
     (let k = of_char c :: nat in if 48 \<le> k \<and> k \<le> 57 then k - 48 else k - 87)"

definition hex_value :: "string \<Rightarrow> nat" where
  "hex_value ds = foldl (\<lambda>v c. 16 * v + digit_value c) 0 ds"

definition lower_hex_encoding :: "nat \<Rightarrow> string \<Rightarrow> bool" where
  "lower_hex_encoding n ds =
     (ds \<noteq> [] \<and> list_all is_lower_hex ds \<and> hex_value ds = n \<and>
      (hd ds = CHR ''0'') = (ds = ''0''))"

section \<open>Evaluating the model\<close>

lemma hex_small: "n < 16 \<Longrightarrow> hex n = [hex_digit n]"
  by (simp add: hex.simps)

lemma hex_large: "16 \<le> n \<Longrightarrow> hex n = hex (n div 16) @ [hex_digit (n mod 16)]"
  by (subst hex.simps) simp

lemma stdout_call_printf:
  "stdout (call (printf fmt args) w) =
     stdout w @ [(format fmt args, stdout_accepts w (length (stdout w)))]"
  by (simp add: call_def printf_def Let_def)

lemma stdout_accepts_call_printf:
  "stdout_accepts (call (printf fmt args) w) = stdout_accepts w"
  by (simp add: call_def printf_def Let_def)

lemma result_register_call_printf:
  "result_register (call (printf fmt args) w) =
     (if stdout_accepts w (length (stdout w)) then int (length (format fmt args)) else - 1)"
  by (simp add: call_def printf_def Let_def)

lemma format_FSGETXATTR:
  "format ''FS_IOC_FSGETXATTR: 0x%x\<newline>'' [v] =
     ''FS_IOC_FSGETXATTR: 0x'' @ hex (unat v) @ ''\<newline>''"
  by simp

lemma format_FSSETXATTR:
  "format ''FS_IOC_FSSETXATTR: 0x%x\<newline>'' [v] =
     ''FS_IOC_FSSETXATTR: 0x'' @ hex (unat v) @ ''\<newline>''"
  by simp

lemma format_PROJINHERIT:
  "format ''FS_XFLAG_PROJINHERIT: 0x%x\<newline>'' [v] =
     ''FS_XFLAG_PROJINHERIT: 0x'' @ hex (unat v) @ ''\<newline>''"
  by simp

text \<open>The writes of \<open>main\<close>, each with the fate the device gives it.\<close>

lemma stdout_main:
  "stdout (main p w) =
     stdout w @
     [(''FS_IOC_FSGETXATTR: 0x'' @ hex (unat (FS_IOC_FSGETXATTR p)) @ ''\<newline>'',
         stdout_accepts w (length (stdout w))),
      (''FS_IOC_FSSETXATTR: 0x'' @ hex (unat (FS_IOC_FSSETXATTR p)) @ ''\<newline>'',
         stdout_accepts w (length (stdout w) + 1)),
      (''FS_XFLAG_PROJINHERIT: 0x'' @ hex (unat (FS_XFLAG_PROJINHERIT p)) @ ''\<newline>'',
         stdout_accepts w (length (stdout w) + 2))]"
  unfolding main_def Let_def
  by (simp only: stdout_call_printf stdout_accepts_call_printf format_FSGETXATTR
        format_FSSETXATTR format_PROJINHERIT) simp

lemma sent_main:
  "sent (stdout (main p w)) =
     sent (stdout w) @
     ''FS_IOC_FSGETXATTR: 0x'' @ hex (unat (FS_IOC_FSGETXATTR p)) @ ''\<newline>'' @
     ''FS_IOC_FSSETXATTR: 0x'' @ hex (unat (FS_IOC_FSSETXATTR p)) @ ''\<newline>'' @
     ''FS_XFLAG_PROJINHERIT: 0x'' @ hex (unat (FS_XFLAG_PROJINHERIT p)) @ ''\<newline>''"
  by (simp add: stdout_main sent_def)

section \<open>Facts about the hexadecimal conversion\<close>

lemma hex_digit_cases:
  "d < 16 \<Longrightarrow> d = 0 \<or> d = 1 \<or> d = 2 \<or> d = 3 \<or> d = 4 \<or> d = 5 \<or> d = 6 \<or> d = 7 \<or>
     d = 8 \<or> d = 9 \<or> d = 10 \<or> d = 11 \<or> d = 12 \<or> d = 13 \<or> d = 14 \<or> d = (15::nat)"
  by arith

lemma is_lower_hex_hex_digit: "d < 16 \<Longrightarrow> is_lower_hex (hex_digit d)"
  unfolding is_lower_hex_def hex_digit_def by (rule nth_mem) simp

lemma digit_value_hex_digit: "d < 16 \<Longrightarrow> digit_value (hex_digit d) = d"
  by (drule hex_digit_cases) (auto simp: digit_value_def hex_digit_def)

lemma hex_digit_digit_value: "is_lower_hex c \<Longrightarrow> hex_digit (digit_value c) = c"
  by (auto simp: is_lower_hex_def digit_value_def hex_digit_def)

lemma digit_value_less: "is_lower_hex c \<Longrightarrow> digit_value c < 16"
  by (auto simp: is_lower_hex_def digit_value_def)

lemma hex_digit_zero: "d < 16 \<Longrightarrow> (hex_digit d = CHR ''0'') = (d = 0)"
  by (drule hex_digit_cases) (auto simp: hex_digit_def)

lemma hex_value_snoc: "hex_value (ds @ [c]) = 16 * hex_value ds + digit_value c"
  by (simp add: hex_value_def)

lemma hex_not_Nil: "hex n \<noteq> []"
  by (subst hex.simps) simp

lemma hex_value_hex: "hex_value (hex n) = n"
proof (induction n rule: hex.induct)
  case (1 n)
  show ?case
  proof (cases "n < 16")
    case True
    then show ?thesis
      using hex_value_snoc [of "[]"] by (simp add: hex_small digit_value_hex_digit hex_value_def)
  next
    case False
    with 1 show ?thesis
      by (simp add: hex_large hex_value_snoc digit_value_hex_digit)
  qed
qed

lemma list_all_hex: "list_all is_lower_hex (hex n)"
proof (induction n rule: hex.induct)
  case (1 n)
  show ?case
  proof (cases "n < 16")
    case True
    then show ?thesis by (simp add: hex_small is_lower_hex_hex_digit)
  next
    case False
    with 1 show ?thesis by (simp add: hex_large is_lower_hex_hex_digit)
  qed
qed

lemma hd_hex_zero: "(hd (hex n) = CHR ''0'') = (n = 0)"
proof (induction n rule: hex.induct)
  case (1 n)
  show ?case
  proof (cases "n < 16")
    case True
    then show ?thesis by (simp add: hex_small hex_digit_zero)
  next
    case False
    then have "n div 16 \<noteq> 0" by simp
    with 1 False show ?thesis by (simp add: hex_large hex_not_Nil)
  qed
qed

lemma hex_zero: "hex 0 = ''0''"
  by (simp add: hex_small hex_digit_def)

lemma lower_hex_encoding_hex: "lower_hex_encoding n (hex n)"
proof -
  have "(hex n = ''0'') = (n = 0)"
  proof
    assume "hex n = ''0''"
    then have "hd (hex n) = CHR ''0''" by simp
    then show "n = 0" by (simp add: hd_hex_zero)
  next
    assume "n = 0" then show "hex n = ''0''" by (simp add: hex_zero)
  qed
  then show ?thesis
    by (simp add: lower_hex_encoding_def hex_not_Nil list_all_hex hex_value_hex hd_hex_zero)
qed

lemma hex_snoc: "0 < v \<Longrightarrow> d < 16 \<Longrightarrow> hex (16 * v + d) = hex v @ [hex_digit d]"
  by (subst hex_large) simp_all

lemma hex_hex_value:
  "ds \<noteq> [] \<Longrightarrow> list_all is_lower_hex ds \<Longrightarrow> (hd ds = CHR ''0'') = (ds = ''0'') \<Longrightarrow>
     hex (hex_value ds) = ds"
proof (induction ds rule: rev_induct)
  case Nil
  then show ?case by simp
next
  case (snoc c ds)
  from snoc.prems have c: "is_lower_hex c" by simp
  show ?case
  proof (cases "ds = []")
    case True
    with c show ?thesis
      using hex_value_snoc [of "[]" c]
      by (simp add: hex_value_def hex_small digit_value_less hex_digit_digit_value)
  next
    case False
    with snoc.prems have nz: "hd ds \<noteq> CHR ''0''" by (cases ds) auto
    then have "(hd ds = CHR ''0'') = (ds = ''0'')" by auto
    with snoc False have ih: "hex (hex_value ds) = ds" by simp
    have "hex_value ds \<noteq> 0"
    proof
      assume "hex_value ds = 0"
      with ih have "ds = ''0''" by (simp add: hex_zero)
      with nz show False by simp
    qed
    then show ?thesis
      using c ih by (simp add: hex_value_snoc hex_snoc digit_value_less hex_digit_digit_value)
  qed
qed

lemma lower_hex_encoding_iff: "lower_hex_encoding n ds = (ds = hex n)"
proof
  assume "lower_hex_encoding n ds"
  then show "ds = hex n"
    using hex_hex_value [of ds] by (auto simp: lower_hex_encoding_def)
next
  assume "ds = hex n"
  then show "lower_hex_encoding n ds" by (simp add: lower_hex_encoding_hex)
qed

lemma length_hex_le: "0 < k \<Longrightarrow> n < 16 ^ k \<Longrightarrow> length (hex n) \<le> k"
proof (induction n arbitrary: k rule: hex.induct)
  case (1 n)
  show ?case
  proof (cases "n < 16")
    case True
    with 1 show ?thesis by (simp add: hex_small)
  next
    case False
    obtain j where k: "k = Suc j" using \<open>0 < k\<close> by (cases k) auto
    have "j \<noteq> 0"
    proof
      assume "j = 0" with k \<open>n < 16 ^ k\<close> False show False by simp
    qed
    moreover from k \<open>n < 16 ^ k\<close> have "n div 16 < 16 ^ j"
      by (simp add: less_mult_imp_div_less mult.commute)
    ultimately have "length (hex (n div 16)) \<le> j"
      using 1 False by simp
    with False k show ?thesis by (simp add: hex_large)
  qed
qed

lemma two_power_le_sixteen: "(2::nat) ^ l \<le> 16 ^ ((l + 3) div 4)"
proof -
  have "(16::nat) ^ ((l + 3) div 4) = 2 ^ (4 * ((l + 3) div 4))"
    by (simp add: power_mult)
  moreover have "l \<le> 4 * ((l + 3) div 4)" by arith
  ultimately show ?thesis by (simp add: power_increasing)
qed

lemma length_hex_unat: "length (hex (unat (c :: 'a::len word))) \<le> (LENGTH('a) + 3) div 4"
proof (rule length_hex_le)
  have "0 < LENGTH('a)" by simp
  then show "0 < (LENGTH('a) + 3) div 4" by arith
  have "unat c < 2 ^ LENGTH('a)" by (rule unsigned_less)
  also have "\<dots> \<le> 16 ^ ((LENGTH('a) + 3) div 4)" by (rule two_power_le_sixteen)
  finally show "unat c < 16 ^ ((LENGTH('a) + 3) div 4)" .
qed

lemma newline_not_lower_hex: "\<not> is_lower_hex (CHR ''\<newline>'')"
  by (simp add: is_lower_hex_def)

lemma filter_newline_hex: "filter (\<lambda>c. c = CHR ''\<newline>'') (hex n) = []"
proof -
  have "\<forall>c \<in> set (hex n). is_lower_hex c"
    using list_all_hex [of n] by (simp add: list_all_iff)
  then have "\<forall>c \<in> set (hex n). c \<noteq> CHR ''\<newline>''"
    using newline_not_lower_hex by auto
  then show ?thesis by (simp add: filter_empty_conv)
qed

section \<open>The output of a run\<close>

lemma sent_run:
  "sent (stdout (run p args env fs dev)) =
     ''FS_IOC_FSGETXATTR: 0x'' @ hex (unat (FS_IOC_FSGETXATTR p)) @ ''\<newline>'' @
     ''FS_IOC_FSSETXATTR: 0x'' @ hex (unat (FS_IOC_FSSETXATTR p)) @ ''\<newline>'' @
     ''FS_XFLAG_PROJINHERIT: 0x'' @ hex (unat (FS_XFLAG_PROJINHERIT p)) @ ''\<newline>''"
  by (simp add: run_def sent_main) (simp add: process_start_def sent_def)

lemma arrived_run:
  "arrived (stdout (run p args env fs (\<lambda>k. True))) =
     ''FS_IOC_FSGETXATTR: 0x'' @ hex (unat (FS_IOC_FSGETXATTR p)) @ ''\<newline>'' @
     ''FS_IOC_FSSETXATTR: 0x'' @ hex (unat (FS_IOC_FSSETXATTR p)) @ ''\<newline>'' @
     ''FS_XFLAG_PROJINHERIT: 0x'' @ hex (unat (FS_XFLAG_PROJINHERIT p)) @ ''\<newline>''"
  by (simp add: run_def stdout_main arrived_def) (simp add: process_start_def)

lemma hex_5431: "hex 0x5431 = ''5431''"
  by (simp add: hex_small hex_large hex_digit_def)

lemma hex_5432: "hex 0x5432 = ''5432''"
  by (simp add: hex_small hex_large hex_digit_def)

lemma hex_200: "hex 0x200 = ''200''"
  by (simp add: hex_small hex_large hex_digit_def)

lemma result_register_main:
  "result_register (main p w) =
     (if stdout_accepts w (length (stdout w) + 2)
      then 25 + int (length (hex (unat (FS_XFLAG_PROJINHERIT p)))) else - 1)"
  unfolding main_def Let_def
  by (simp only: result_register_call_printf stdout_accepts_call_printf stdout_call_printf
        format_PROJINHERIT) simp

section \<open>What a call leaves alone\<close>

lemma stderr_call_printf: "stderr (call (printf fmt args) w) = stderr w"
  by (simp add: call_def printf_def Let_def)

lemma argv_call_printf: "argv (call (printf fmt args) w) = argv w"
  by (simp add: call_def printf_def Let_def)

lemma environ_call_printf: "environ (call (printf fmt args) w) = environ w"
  by (simp add: call_def printf_def Let_def)

lemma files_call_printf: "files (call (printf fmt args) w) = files w"
  by (simp add: call_def printf_def Let_def)

lemma more_call_printf: "world.more (call (printf fmt args) w) = world.more w"
  by (simp add: call_def printf_def Let_def)

lemma stdout_accepts_main: "stdout_accepts (main p w) = stdout_accepts w"
  by (simp add: main_def Let_def stdout_accepts_call_printf)

lemma stderr_main: "stderr (main p w) = stderr w"
  by (simp add: main_def Let_def stderr_call_printf)


section \<open>What is fetched from a wider constant\<close>





section \<open>Where execution ends\<close>



section \<open>The claims\<close>

text \<open>
  C1. Every run writes exactly three lines to standard output, in the order
  \<^verbatim>\<open>FS_IOC_FSGETXATTR\<close>, \<^verbatim>\<open>FS_IOC_FSSETXATTR\<close>, \<^verbatim>\<open>FS_XFLAG_PROJINHERIT\<close>. Each line is
  the name of the constant, a colon, a space, \<^verbatim>\<open>0x\<close>, the value of that constant in
  lowercase hexadecimal (a non-empty string of lowercase hexadecimal digits that
  \<open>lower_hex_encoding\<close> accepts for the value) and a newline. Nothing comes before,
  between or after them: the output is their concatenation and holds three newline
  characters. A device that takes every write receives these bytes.
\<close>

theorem three_lines_in_order:
  "\<exists>d1 d2 d3.
     sent (stdout (run p args env fs dev)) =
       ''FS_IOC_FSGETXATTR: 0x'' @ d1 @ ''\<newline>'' @
       ''FS_IOC_FSSETXATTR: 0x'' @ d2 @ ''\<newline>'' @
       ''FS_XFLAG_PROJINHERIT: 0x'' @ d3 @ ''\<newline>'' \<and>
     lower_hex_encoding (unat (FS_IOC_FSGETXATTR p)) d1 \<and>
     lower_hex_encoding (unat (FS_IOC_FSSETXATTR p)) d2 \<and>
     lower_hex_encoding (unat (FS_XFLAG_PROJINHERIT p)) d3 \<and>
     d1 \<noteq> [] \<and> list_all is_lower_hex d1 \<and>
     d2 \<noteq> [] \<and> list_all is_lower_hex d2 \<and>
     d3 \<noteq> [] \<and> list_all is_lower_hex d3 \<and>
     length (filter (\<lambda>c. c = CHR ''\<newline>'') (sent (stdout (run p args env fs dev)))) = 3 \<and>
     arrived (stdout (run p args env fs (\<lambda>k. True))) = sent (stdout (run p args env fs dev))"
proof (intro exI conjI)
  show "sent (stdout (run p args env fs dev)) =
       ''FS_IOC_FSGETXATTR: 0x'' @ hex (unat (FS_IOC_FSGETXATTR p)) @ ''\<newline>'' @
       ''FS_IOC_FSSETXATTR: 0x'' @ hex (unat (FS_IOC_FSSETXATTR p)) @ ''\<newline>'' @
       ''FS_XFLAG_PROJINHERIT: 0x'' @ hex (unat (FS_XFLAG_PROJINHERIT p)) @ ''\<newline>''"
    by (rule sent_run)
  show "length (filter (\<lambda>c. c = CHR ''\<newline>'') (sent (stdout (run p args env fs dev)))) = 3"
    by (simp add: sent_run filter_newline_hex)
  show "arrived (stdout (run p args env fs (\<lambda>k. True))) = sent (stdout (run p args env fs dev))"
    by (simp only: sent_run arrived_run)
qed (simp_all add: hex_not_Nil list_all_hex lower_hex_encoding_hex)

text \<open>
  C2. For every value of each of the three constants, the digits printed after
  \<^verbatim>\<open>0x\<close> are, byte for byte, the lowercase hexadecimal encoding of the constant's
  numeric value without leading zeros: the one and only string that
  \<open>lower_hex_encoding\<close> accepts for that value.
\<close>

theorem printed_value_is_hex_encoding:
  "\<exists>d1 d2 d3.
     sent (stdout (run p args env fs dev)) =
       ''FS_IOC_FSGETXATTR: 0x'' @ d1 @ ''\<newline>'' @
       ''FS_IOC_FSSETXATTR: 0x'' @ d2 @ ''\<newline>'' @
       ''FS_XFLAG_PROJINHERIT: 0x'' @ d3 @ ''\<newline>'' \<and>
     (\<forall>ds. lower_hex_encoding (unat (FS_IOC_FSGETXATTR p)) ds = (ds = d1)) \<and>
     (\<forall>ds. lower_hex_encoding (unat (FS_IOC_FSSETXATTR p)) ds = (ds = d2)) \<and>
     (\<forall>ds. lower_hex_encoding (unat (FS_XFLAG_PROJINHERIT p)) ds = (ds = d3))"
proof (intro exI conjI)
  show "sent (stdout (run p args env fs dev)) =
       ''FS_IOC_FSGETXATTR: 0x'' @ hex (unat (FS_IOC_FSGETXATTR p)) @ ''\<newline>'' @
       ''FS_IOC_FSSETXATTR: 0x'' @ hex (unat (FS_IOC_FSSETXATTR p)) @ ''\<newline>'' @
       ''FS_XFLAG_PROJINHERIT: 0x'' @ hex (unat (FS_XFLAG_PROJINHERIT p)) @ ''\<newline>''"
    by (rule sent_run)
qed (simp_all add: lower_hex_encoding_iff)

text \<open>
  C3. The exit status of a run that completes its three prints. \<open>main\<close> is declared
  \<^verbatim>\<open>void\<close> and returns no value, so the status is what the last call left in the
  result register: the number of bytes of the third line. On the platform of the
  specification's example, with every write taken, the status is 28; and where
  \<^verbatim>\<open>unsigned int\<close> has 32 bits, no run at all ends with status 0.
\<close>

theorem exit_status_is_not_zero:
  "exit_status (run scenario args env fs (\<lambda>k. True)) = 28 \<and>
   exit_status (run (p :: 32 platform) args env fs dev) \<noteq> 0"
proof
  show "exit_status (run scenario args env fs (\<lambda>k. True)) = 28"
    by (simp add: exit_status_def run_def result_register_main scenario_def hex_200
          process_start_def)
  have "length (hex (unat (FS_XFLAG_PROJINHERIT p))) \<le> 8"
    using length_hex_unat [of "FS_XFLAG_PROJINHERIT p"] by simp
  moreover have "0 < length (hex (unat (FS_XFLAG_PROJINHERIT p)))"
    by (simp add: hex_not_Nil)
  ultimately show "exit_status (run p args env fs dev) \<noteq> 0"
    by (simp add: exit_status_def run_def result_register_main)
qed

text \<open>
  C4. On a platform where \<^verbatim>\<open>FS_IOC_FSGETXATTR\<close> is \<^verbatim>\<open>0x5431\<close>, \<^verbatim>\<open>FS_IOC_FSSETXATTR\<close> is
  \<^verbatim>\<open>0x5432\<close> and \<^verbatim>\<open>FS_XFLAG_PROJINHERIT\<close> is \<^verbatim>\<open>0x00000200\<close>, what the program
  writes to standard output is exactly the three lines of the specification's example,
  each ended by a newline, whatever the command line, the environment and the files;
  and that is what arrives when the device takes every write.
\<close>

theorem scenario_output:
  assumes "unat (FS_IOC_FSGETXATTR p) = 0x5431"
    and "unat (FS_IOC_FSSETXATTR p) = 0x5432"
    and "unat (FS_XFLAG_PROJINHERIT p) = 0x00000200"
  shows "sent (stdout (run p args env fs dev)) =
           ''FS_IOC_FSGETXATTR: 0x5431\<newline>FS_IOC_FSSETXATTR: 0x5432\<newline>FS_XFLAG_PROJINHERIT: 0x200\<newline>'' \<and>
         arrived (stdout (run p args env fs (\<lambda>k. True))) =
           ''FS_IOC_FSGETXATTR: 0x5431\<newline>FS_IOC_FSSETXATTR: 0x5432\<newline>FS_XFLAG_PROJINHERIT: 0x200\<newline>''"
  using assms by (simp add: sent_run arrived_run hex_5431 hex_5432 hex_200)

theorem scenario_output_witness:
  "unat (FS_IOC_FSGETXATTR scenario) = 0x5431 \<and>
   unat (FS_IOC_FSSETXATTR scenario) = 0x5432 \<and>
   unat (FS_XFLAG_PROJINHERIT scenario) = 0x00000200 \<and>
   sent (stdout (run scenario [''./resolve-ioctl-val''] [] Map.empty (\<lambda>k. True))) =
     ''FS_IOC_FSGETXATTR: 0x5431\<newline>FS_IOC_FSSETXATTR: 0x5432\<newline>FS_XFLAG_PROJINHERIT: 0x200\<newline>''"
proof -
  have a: "unat (FS_IOC_FSGETXATTR scenario) = 0x5431" by (simp add: scenario_def)
  have b: "unat (FS_IOC_FSSETXATTR scenario) = 0x5432" by (simp add: scenario_def)
  have c: "unat (FS_XFLAG_PROJINHERIT scenario) = 0x00000200" by (simp add: scenario_def)
  from scenario_output [OF a b c, of "[''./resolve-ioctl-val'']" "[]" Map.empty "\<lambda>k. True"] a b c
  show ?thesis by blast
qed

text \<open>
  C5. Two runs on the same platform that differ in their command line and their
  environment make the same writes on standard output, with the same fate: \<open>main\<close>
  declares no parameter and reads neither.
\<close>

theorem output_ignores_arguments_and_environment:
  "stdout (run p args1 env1 fs dev) = stdout (run p args2 env2 fs dev)"
  by (simp add: run_def stdout_main) (simp add: process_start_def)

text \<open>
  C6. The output is deterministic: for a platform there is one byte string that every
  run writes, whatever its command line, environment, files and device, and that
  arrives whenever the device takes every write.
\<close>

theorem output_deterministic:
  "\<exists>out. \<forall>args env fs dev.
     sent (stdout (run p args env fs dev)) = out \<and>
     arrived (stdout (run p args env fs (\<lambda>k. True))) = out"
  by (intro exI allI conjI, rule sent_run, rule arrived_run)




text \<open>
  C8. The only effect of a run is the write to standard output. Command line,
  environment, files, standard error, the behaviour of the device and any further state
  of the process are after the run what they were before, and what standard output
  held before is still there, in front of the new writes. The constants are values
  passed to the calls; nothing in the program assigns to them. (The result register is
  a scratch register of the calling convention, overwritten by every call; it is not
  part of that state.)
\<close>

theorem main_frame:
  "argv (main p w) = argv w \<and> environ (main p w) = environ w \<and>
   files (main p w) = files w \<and> stderr (main p w) = stderr w \<and>
   stdout_accepts (main p w) = stdout_accepts w \<and>
   world.more (main p w) = world.more w \<and>
   take (length (stdout w)) (stdout (main p w)) = stdout w"
  by (simp add: stdout_main stderr_main stdout_accepts_main)
     (simp add: main_def Let_def argv_call_printf environ_call_printf files_call_printf
        more_call_printf)




text \<open>
  C10. A print whose write fails. The three prints are made all the same, in the same
  order and with the same text, and nothing goes to standard error; but the run does
  not end as a successful one does. \<open>main\<close> is \<^verbatim>\<open>void\<close>, so the result of the last
  print is the exit status: on the platform of the example, on a terminal that refuses
  the third write, the status is 255, where it is 28 when every write is taken.
\<close>

theorem refused_print_changes_exit_status:
  "exit_status (run scenario args env fs (\<lambda>k. True)) = 28 \<and>
   exit_status (run scenario args env fs (\<lambda>k. k \<noteq> 2)) = 255 \<and>
   stdout (run scenario args env fs (\<lambda>k. k \<noteq> 2)) =
     [(''FS_IOC_FSGETXATTR: 0x5431\<newline>'', True),
      (''FS_IOC_FSSETXATTR: 0x5432\<newline>'', True),
      (''FS_XFLAG_PROJINHERIT: 0x200\<newline>'', False)] \<and>
   stderr (run scenario args env fs (\<lambda>k. k \<noteq> 2)) = []"
  by (simp add: exit_status_def run_def result_register_main stdout_main stderr_main)
     (simp add: process_start_def scenario_def hex_5431 hex_5432 hex_200)

end
